theory Spec2Isabelle
  imports Complex_Main
begin

section \<open>JavaScript values read and written by the handlers\<close>

text \<open>
  The handlers of \<^verbatim>\<open>server.js\<close> (the serverless variant) and of the second source
  file (the standalone variant, one process-wide pool) move dynamically typed values
  between the request body, the language-model service and the SQL store. A value is a
  tree: an object is the list of its own enumerable properties in enumeration order.
  A string is the list of its UTF-16 code units, and a \<open>char\<close> is a code unit below 256
  (ASCII and Latin-1); strings with code units from 256 on are outside the model.
  A number is a finite rational (every finite double is one; \<open>-0\<close> is \<open>Finite 0\<close>),
  an infinity or NaN.
\<close>

datatype jsnum = NaN | PosInf | NegInf | Finite rat

datatype jsval =
    JUndefined
  | JNull
  | JBool bool
  | JNum jsnum
  | JStr string
  | JArr "jsval list"
  | JObj "(string \<times> jsval) list"

text \<open>What is thrown: the engine's own errors, and the rejection of an awaited library
  call (\<^verbatim>\<open>sql.connect\<close>, \<^verbatim>\<open>query\<close>, \<^verbatim>\<open>axios.post\<close>, \<^verbatim>\<open>pool.close\<close>) with its message.\<close>

datatype err = TypeError | SyntaxError | Rejected string

text \<open>Truthiness, as \<^verbatim>\<open>&&\<close> and \<^verbatim>\<open>if\<close> test it.\<close>

fun truthy :: "jsval \<Rightarrow> bool" where
  "truthy JUndefined = False"
| "truthy JNull = False"
| "truthy (JBool b) = b"
| "truthy (JNum NaN) = False"
| "truthy (JNum (Finite r)) = (r \<noteq> 0)"
| "truthy (JNum PosInf) = True"
| "truthy (JNum NegInf) = True"
| "truthy (JStr s) = (s \<noteq> [])"
| "truthy (JArr xs) = True"
| "truthy (JObj kvs) = True"

text \<open>
  Reading a property \<^verbatim>\<open>v.name\<close>. On \<^verbatim>\<open>undefined\<close> and \<^verbatim>\<open>null\<close> the read throws a
  TypeError. The names the handlers read (\<^verbatim>\<open>message\<close>, \<^verbatim>\<open>conversationHistory\<close>, \<^verbatim>\<open>query\<close>,
  \<^verbatim>\<open>TABLE_NAME\<close>, \<^verbatim>\<open>content\<close>, \<^verbatim>\<open>text\<close>, \<^verbatim>\<open>needsQuery\<close>, \<^verbatim>\<open>response\<close>) are on no built-in
  prototype, so on a primitive or an array the read gives \<^verbatim>\<open>undefined\<close>.
\<close>

fun get_prop :: "jsval \<Rightarrow> string \<Rightarrow> err + jsval" where
  "get_prop JUndefined name = Inl TypeError"
| "get_prop JNull name = Inl TypeError"
| "get_prop (JObj kvs) name = Inr (case map_of kvs name of Some v \<Rightarrow> v | None \<Rightarrow> JUndefined)"
| "get_prop v name = Inr JUndefined"

text \<open>Reading index \<^verbatim>\<open>v[0]\<close>.\<close>

fun get_first :: "jsval \<Rightarrow> err + jsval" where
  "get_first JUndefined = Inl TypeError"
| "get_first JNull = Inl TypeError"
| "get_first (JArr xs) = Inr (case xs of [] \<Rightarrow> JUndefined | x # _ \<Rightarrow> x)"
| "get_first (JStr s) = Inr (case s of [] \<Rightarrow> JUndefined | c # _ \<Rightarrow> JStr [c])"
| "get_first (JObj kvs) = Inr (case map_of kvs ''0'' of Some v \<Rightarrow> v | None \<Rightarrow> JUndefined)"
| "get_first v = Inr JUndefined"

text \<open>
  Conversion to a string, as a template literal and \<^verbatim>\<open>Array.prototype.join\<close> do it. The
  decimal text of a finite number is a parameter \<open>nt\<close>. An array is its elements joined
  by commas, \<^verbatim>\<open>undefined\<close> and \<^verbatim>\<open>null\<close> elements giving the empty string. A plain object
  is \<^verbatim>\<open>[object Object]\<close>, unless it has an own property \<^verbatim>\<open>toString\<close>: coming from JSON
  that property is no function, \<^verbatim>\<open>Object.prototype.valueOf\<close> returns the object itself, and
  the conversion throws a TypeError (\<open>None\<close>).
\<close>

fun join_with :: "string \<Rightarrow> string list \<Rightarrow> string" where
  "join_with sep [] = []"
| "join_with sep [s] = s"
| "join_with sep (s # t # ss) = s @ sep @ join_with sep (t # ss)"

fun sequence :: "'a option list \<Rightarrow> 'a list option" where
  "sequence [] = Some []"
| "sequence (None # xs) = None"
| "sequence (Some x # xs) = (case sequence xs of None \<Rightarrow> None | Some ys \<Rightarrow> Some (x # ys))"

fun to_str :: "(rat \<Rightarrow> string) \<Rightarrow> jsval \<Rightarrow> string option"
  and elems_str :: "(rat \<Rightarrow> string) \<Rightarrow> jsval list \<Rightarrow> string option list" where
  "to_str nt JUndefined = Some ''undefined''"
| "to_str nt JNull = Some ''null''"
| "to_str nt (JBool b) = Some (if b then ''true'' else ''false'')"
| "to_str nt (JNum NaN) = Some ''NaN''"
| "to_str nt (JNum PosInf) = Some ''Infinity''"
| "to_str nt (JNum NegInf) = Some ''-Infinity''"
| "to_str nt (JNum (Finite r)) = Some (nt r)"
| "to_str nt (JStr s) = Some s"
| "to_str nt (JArr xs) = map_option (join_with '','') (sequence (elems_str nt xs))"
| "to_str nt (JObj kvs) =
     (if ''toString'' \<in> fst ` set kvs then None else Some ''[object Object]'')"
| "elems_str nt [] = []"
| "elems_str nt (x # xs) =
     (case x of JUndefined \<Rightarrow> Some [] | JNull \<Rightarrow> Some [] | _ \<Rightarrow> to_str nt x) # elems_str nt xs"

text \<open>
  \<^verbatim>\<open>JSON.stringify(v, null, 2)\<close>: the text of a value with an indentation of two
  spaces, \<open>None\<close> where JavaScript returns \<^verbatim>\<open>undefined\<close>. An \<^verbatim>\<open>undefined\<close> array element
  is written \<^verbatim>\<open>null\<close>, an \<^verbatim>\<open>undefined\<close> property is left out, a number that is not finite is
  written \<^verbatim>\<open>null\<close>. The first argument of \<open>ser\<close> after \<open>nt\<close> is the indentation reached.
\<close>

definition hex_digit :: "nat \<Rightarrow> char" where
  "hex_digit n = ''0123456789abcdef'' ! (n mod 16)"

definition escape_char :: "char \<Rightarrow> string" where
  "escape_char c =
     (if c = CHR 0x08 then [CHR 0x5C, CHR ''b'']
      else if c = CHR 0x09 then [CHR 0x5C, CHR ''t'']
      else if c = CHR 0x0A then [CHR 0x5C, CHR ''n'']
      else if c = CHR 0x0C then [CHR 0x5C, CHR ''f'']
      else if c = CHR 0x0D then [CHR 0x5C, CHR ''r'']
      else if c = CHR 0x22 then [CHR 0x5C, CHR 0x22]
      else if c = CHR 0x5C then [CHR 0x5C, CHR 0x5C]
      else if (of_char c :: nat) < 32
        then [CHR 0x5C, CHR ''u'', CHR ''0'', CHR ''0'',
              hex_digit (of_char c div 16), hex_digit (of_char c mod 16)]
      else [c])"

definition quote :: "string \<Rightarrow> string" where
  "quote s = [CHR 0x22] @ concat (map escape_char s) @ [CHR 0x22]"

fun ser :: "(rat \<Rightarrow> string) \<Rightarrow> string \<Rightarrow> jsval \<Rightarrow> string option"
  and ser_items :: "(rat \<Rightarrow> string) \<Rightarrow> string \<Rightarrow> jsval list \<Rightarrow> string list"
  and ser_props :: "(rat \<Rightarrow> string) \<Rightarrow> string \<Rightarrow> (string \<times> jsval) list \<Rightarrow> string list" where
  "ser nt ind JUndefined = None"
| "ser nt ind JNull = Some ''null''"
| "ser nt ind (JBool b) = Some (if b then ''true'' else ''false'')"
| "ser nt ind (JNum (Finite r)) = Some (nt r)"
| "ser nt ind (JNum NaN) = Some ''null''"
| "ser nt ind (JNum PosInf) = Some ''null''"
| "ser nt ind (JNum NegInf) = Some ''null''"
| "ser nt ind (JStr s) = Some (quote s)"
| "ser nt ind (JArr xs) =
     Some (if xs = [] then ''[]''
           else ''['' @ [CHR 0x0A] @ (ind @ ''  '')
                  @ join_with ('','' @ [CHR 0x0A] @ (ind @ ''  '')) (ser_items nt (ind @ ''  '') xs)
                  @ [CHR 0x0A] @ ind @ '']'')"
| "ser nt ind (JObj kvs) =
     Some (if ser_props nt (ind @ ''  '') kvs = [] then ''{}''
           else ''{'' @ [CHR 0x0A] @ (ind @ ''  '')
                  @ join_with ('','' @ [CHR 0x0A] @ (ind @ ''  '')) (ser_props nt (ind @ ''  '') kvs)
                  @ [CHR 0x0A] @ ind @ ''}'')"
| "ser_items nt ind [] = []"
| "ser_items nt ind (x # xs) =
     (case ser nt ind x of None \<Rightarrow> ''null'' | Some s \<Rightarrow> s) # ser_items nt ind xs"
| "ser_props nt ind [] = []"
| "ser_props nt ind (kv # kvs) =
     (case ser nt ind (snd kv) of
        None \<Rightarrow> ser_props nt ind kvs
      | Some s \<Rightarrow> (quote (fst kv) @ '': '' @ s) # ser_props nt ind kvs)"

definition JSON_stringify :: "(rat \<Rightarrow> string) \<Rightarrow> jsval \<Rightarrow> jsval" where
  "JSON_stringify nt v = (case ser nt [] v of None \<Rightarrow> JUndefined | Some s \<Rightarrow> JStr s)"

subsection \<open>The string methods of the SELECT check\<close>

text \<open>
  \<^verbatim>\<open>trim\<close> removes white space and line terminators at both ends. Below 256 these are the
  code units TAB, LF, VT, FF, CR, SPACE and U+00A0 (no-break space).
\<close>

definition is_space :: "char \<Rightarrow> bool" where
  "is_space c \<longleftrightarrow>
     c \<in> {CHR 0x09, CHR 0x0A, CHR 0x0B, CHR 0x0C, CHR 0x0D, CHR 0x20, CHR 0xA0}"

definition trim :: "string \<Rightarrow> string" where
  "trim s = rev (dropWhile is_space (rev (dropWhile is_space s)))"

text \<open>
  \<^verbatim>\<open>toUpperCase\<close>, code unit by code unit, as a list of code units, since the upper case
  of a code unit below 256 need not be one: the letters a to z and the Latin-1 letters
  U+00E0 to U+00FE (but not the division sign U+00F7) move down by 32, the micro sign
  U+00B5 becomes U+039C, the sharp s U+00DF becomes the two letters SS, U+00FF becomes
  U+0178, and every other code unit stays.
\<close>

definition upper_units :: "char \<Rightarrow> nat list" where
  "upper_units c =
     (if 97 \<le> (of_char c :: nat) \<and> (of_char c :: nat) \<le> 122 then [of_char c - 32]
      else if (of_char c :: nat) = 181 then [924]
      else if (of_char c :: nat) = 223 then [83, 83]
      else if 224 \<le> (of_char c :: nat) \<and> (of_char c :: nat) \<le> 254
                \<and> (of_char c :: nat) \<noteq> 247
        then [of_char c - 32]
      else if (of_char c :: nat) = 255 then [376]
      else [of_char c])"

definition toUpperCase :: "string \<Rightarrow> nat list" where
  "toUpperCase s = concat (map upper_units s)"

text \<open>\<^verbatim>\<open>startsWith\<close> compares a prefix.\<close>

definition startsWith :: "'a list \<Rightarrow> 'a list \<Rightarrow> bool" where
  "startsWith s p \<longleftrightarrow> take (length p) s = p"

section \<open>Effects\<close>

text \<open>
  A handler is run against the world of one request (\<open>env\<close> below) and yields the list
  of the effects it performs, in order, and how it ends: it returns, it throws, or it
  stays pending for ever on an awaited promise that never settles.
\<close>

datatype event =
    Acquire                  \<comment> \<open>\<^verbatim>\<open>sql.connect\<close> resolved: a pool is open\<close>
  | Query jsval              \<comment> \<open>\<^verbatim>\<open>pool.request().query(q)\<close> was sent to the store\<close>
  | Post jsval               \<comment> \<open>\<^verbatim>\<open>axios.post\<close> sent this body to the model service\<close>
  | Respond nat jsval        \<comment> \<open>\<^verbatim>\<open>res.status(n).json(body)\<close>\<close>
  | Close                    \<comment> \<open>\<^verbatim>\<open>pool.close()\<close> was called\<close>
  | Log string "err option"  \<comment> \<open>\<^verbatim>\<open>console.log\<close> or \<^verbatim>\<open>console.error\<close>: the label, the error\<close>

datatype 'a outcome = Return 'a | Throw err | Pending

type_synonym 'a io = "event list \<times> 'a outcome"

definition return :: "'a \<Rightarrow> 'a io" where
  "return a = ([], Return a)"

definition emit :: "event \<Rightarrow> unit io" where
  "emit e = ([e], Return ())"

definition lift :: "err + 'a \<Rightarrow> 'a io" where
  "lift r = (case r of Inl e \<Rightarrow> ([], Throw e) | Inr a \<Rightarrow> ([], Return a))"

text \<open>One statement after another: the second runs only if the first returns.\<close>

definition bind_io :: "'a io \<Rightarrow> ('a \<Rightarrow> 'b io) \<Rightarrow> 'b io" where
  "bind_io m f =
     (case snd m of
        Return a \<Rightarrow> (fst m @ fst (f a), snd (f a))
      | Throw e \<Rightarrow> (fst m, Throw e)
      | Pending \<Rightarrow> (fst m, Pending))"

text \<open>\<^verbatim>\<open>try { m } catch (err) { h }\<close>.\<close>

definition try_catch :: "'a io \<Rightarrow> (err \<Rightarrow> 'a io) \<Rightarrow> 'a io" where
  "try_catch m h =
     (case snd m of
        Throw e \<Rightarrow> (fst m @ fst (h e), snd (h e))
      | _ \<Rightarrow> m)"

text \<open>
  \<^verbatim>\<open>try { m } finally { fin }\<close>: the finaliser runs once \<open>m\<close> has returned or thrown, and
  never if \<open>m\<close> stays pending. It is given the effects so far, from which it reads the
  variable \<^verbatim>\<open>pool\<close> (assigned exactly when \<^verbatim>\<open>sql.connect\<close> resolved).
\<close>

definition try_finally :: "'a io \<Rightarrow> (event list \<Rightarrow> unit io) \<Rightarrow> 'a io" where
  "try_finally m fin =
     (case snd m of
        Pending \<Rightarrow> m
      | _ \<Rightarrow> (fst m @ fst (fin (fst m)),
              case snd (fin (fst m)) of
                Return _ \<Rightarrow> snd m
              | Throw e \<Rightarrow> Throw e
              | Pending \<Rightarrow> Pending))"

definition respond :: "nat \<Rightarrow> jsval \<Rightarrow> unit io" where
  "respond n b = emit (Respond n b)"

fun responses :: "event list \<Rightarrow> (nat \<times> jsval) list" where
  "responses [] = []"
| "responses (Respond n b # es) = (n, b) # responses es"
| "responses (e # es) = responses es"

fun queries :: "event list \<Rightarrow> jsval list" where
  "queries [] = []"
| "queries (Query q # es) = q # queries es"
| "queries (e # es) = queries es"

fun posts :: "event list \<Rightarrow> jsval list" where
  "posts [] = []"
| "posts (Post d # es) = d # posts es"
| "posts (e # es) = posts es"

section \<open>The world of one request\<close>

text \<open>How the model service answers a posted body: with response data (a 2xx status), with
  a failure that makes \<^verbatim>\<open>axios.post\<close> reject, or not at all.\<close>

datatype reply = Replied jsval | Failed string | Silent

text \<open>The calls to the store settle (the driver bounds them by its own default timeouts):
  they resolve or reject. Only the post to the model service may stay without an answer.\<close>

record env =
  connect :: "string + unit"
    \<comment> \<open>\<^verbatim>\<open>sql.connect(sqlConfig)\<close>: the rejection's message, or a pool\<close>
  store :: "nat \<Rightarrow> jsval \<Rightarrow> string + jsval"
    \<comment> \<open>the query number \<open>n\<close> of the request (from 0) with its argument: the rejection's
        message, or \<^verbatim>\<open>result.recordset\<close>\<close>
  close :: "string + unit"
    \<comment> \<open>\<^verbatim>\<open>pool.close()\<close>\<close>
  upstream :: "jsval \<Rightarrow> reply"
  JSON_parse :: "string \<Rightarrow> jsval option"
    \<comment> \<open>\<^verbatim>\<open>JSON.parse\<close>: \<open>None\<close> is its SyntaxError\<close>
  number_text :: "rat \<Rightarrow> string"
    \<comment> \<open>the decimal text of a finite number\<close>
  engine_message :: "err \<Rightarrow> string"
    \<comment> \<open>the \<^verbatim>\<open>message\<close> of an error the engine throws\<close>
  now :: string
    \<comment> \<open>\<^verbatim>\<open>new Date().toISOString()\<close>\<close>
  CLAUDE_API_KEY :: "string option"
    \<comment> \<open>\<^verbatim>\<open>process.env.CLAUDE_API_KEY\<close>\<close>

definition message_of :: "env \<Rightarrow> err \<Rightarrow> string" where
  "message_of env e = (case e of Rejected m \<Rightarrow> m | _ \<Rightarrow> engine_message env e)"

subsection \<open>The store\<close>

definition getDatabaseConnection :: "env \<Rightarrow> unit io" where
  "getDatabaseConnection env =
     (case connect env of
        Inr pool \<Rightarrow> emit Acquire
      | Inl m \<Rightarrow> ([Log ''Database connection failed:'' (Some (Rejected m))], Throw (Rejected m)))"

definition request_query :: "env \<Rightarrow> nat \<Rightarrow> jsval \<Rightarrow> jsval io" where
  "request_query env n q =
     (case store env n q of
        Inl m \<Rightarrow> ([Query q], Throw (Rejected m))
      | Inr recordset \<Rightarrow> ([Query q], Return recordset))"

text \<open>The \<^verbatim>\<open>finally\<close> block of every handler of \<^verbatim>\<open>server.js\<close>.\<close>

definition close_pool :: "env \<Rightarrow> event list \<Rightarrow> unit io" where
  "close_pool env sofar =
     (if Acquire \<in> set sofar
      then (case close env of
              Inr _ \<Rightarrow> emit Close
            | Inl m \<Rightarrow> ([Close, Log ''Error closing pool:'' (Some (Rejected m))], Return ()))
      else return ())"

subsection \<open>The model service\<close>

text \<open>
  \<^verbatim>\<open>axios.post(url, data, config)\<close>. With a positive \<^verbatim>\<open>timeout\<close> in the configuration axios
  rejects once that time has passed without an answer; with none (the default 0) it waits
  for as long as the service is silent.
\<close>

definition axios_timeout :: "jsval \<Rightarrow> rat option" where
  "axios_timeout config =
     (case get_prop config ''timeout'' of
        Inr (JNum (Finite t)) \<Rightarrow> if 0 < t then Some t else None
      | _ \<Rightarrow> None)"

definition axios_post :: "env \<Rightarrow> jsval \<Rightarrow> jsval \<Rightarrow> jsval io" where
  "axios_post env data config =
     (case upstream env data of
        Replied d \<Rightarrow> ([Post data], Return d)
      | Failed m \<Rightarrow> ([Post data], Throw (Rejected m))
      | Silent \<Rightarrow>
          (case axios_timeout config of
             None \<Rightarrow> ([Post data], Pending)
           | Some t \<Rightarrow>
               ([Post data],
                Throw (Rejected (''timeout of '' @ number_text env t @ ''ms exceeded'')))))"

section \<open>The chat handler\<close>

subsection \<open>From the request body to the model's text\<close>

text \<open>\<^verbatim>\<open>const { message, conversationHistory = [] } = req.body\<close>: the default is taken only
  for \<^verbatim>\<open>undefined\<close>.\<close>

definition destructure :: "jsval \<Rightarrow> err + jsval \<times> jsval" where
  "destructure body =
     (case get_prop body ''message'' of
        Inl e \<Rightarrow> Inl e
      | Inr message \<Rightarrow>
          (case get_prop body ''conversationHistory'' of
             Inl e \<Rightarrow> Inl e
           | Inr JUndefined \<Rightarrow> Inr (message, JArr [])
           | Inr conversationHistory \<Rightarrow> Inr (message, conversationHistory)))"

definition catalog_query :: string where
  "catalog_query =
     ''SELECT TABLE_NAME FROM INFORMATION_SCHEMA.TABLES WHERE TABLE_TYPE = ''
       @ [CHR 0x27] @ ''BASE TABLE'' @ [CHR 0x27]"

text \<open>\<^verbatim>\<open>tablesResult.recordset.map(row => row.TABLE_NAME)\<close>: only an array has \<^verbatim>\<open>map\<close>.\<close>

fun table_names_of :: "jsval list \<Rightarrow> err + jsval list" where
  "table_names_of [] = Inr []"
| "table_names_of (row # rows) =
     (case get_prop row ''TABLE_NAME'' of
        Inl e \<Rightarrow> Inl e
      | Inr name \<Rightarrow> (case table_names_of rows of Inl e \<Rightarrow> Inl e | Inr names \<Rightarrow> Inr (name # names)))"

definition availableTables :: "jsval \<Rightarrow> err + jsval list" where
  "availableTables recordset =
     (case recordset of JArr rows \<Rightarrow> table_names_of rows | _ \<Rightarrow> Inl TypeError)"

text \<open>\<^verbatim>\<open>availableTables.join(', ')\<close>.\<close>

definition join_tables :: "(rat \<Rightarrow> string) \<Rightarrow> jsval list \<Rightarrow> err + string" where
  "join_tables nt names =
     (case sequence (elems_str nt names) of
        None \<Rightarrow> Inl TypeError
      | Some ss \<Rightarrow> Inr (join_with '', '' ss))"

definition systemPrompt :: "string \<Rightarrow> string" where
  "systemPrompt tables =
     ''You are a helpful assistant that can query a SQL Server database. \<newline>''
   @ ''    Available tables: '' @ tables @ ''\<newline>''
   @ ''    \<newline>''
   @ ''    When a user asks a question that requires database information:\<newline>''
   @ ''    1. Generate the appropriate SQL query\<newline>''
   @ ''    2. Return the query in a structured format so it can be executed\<newline>''
   @ ''    3. Provide explanations for your responses\<newline>''
   @ ''    \<newline>''
   @ ''    Important: Only generate SELECT queries. Do not generate INSERT, UPDATE, DELETE, or DDL queries.\<newline>''
   @ ''    \<newline>''
   @ ''    Format your response as JSON with these fields:\<newline>''
   @ ''    - needsQuery: boolean (true if SQL query is needed)\<newline>''
   @ ''    - query: string (the SQL query if needed)\<newline>''
   @ ''    - explanation: string (explanation of what you'' @ [CHR 0x27] @ ''re doing)\<newline>''
   @ ''    - response: string (your response to the user)''"

text \<open>The spread \<^verbatim>\<open>...conversationHistory\<close> inside the array of messages: an array gives
  its elements, a string its characters, anything else is not iterable.\<close>

definition spread :: "jsval \<Rightarrow> err + jsval list" where
  "spread v =
     (case v of
        JArr xs \<Rightarrow> Inr xs
      | JStr s \<Rightarrow> Inr (map (\<lambda>c. JStr [c]) s)
      | _ \<Rightarrow> Inl TypeError)"

definition request_data :: "string \<Rightarrow> jsval list \<Rightarrow> jsval \<Rightarrow> jsval" where
  "request_data prompt turns message =
     JObj [(''model'', JStr ''claude-3-sonnet-20240229''),
           (''max_tokens'', JNum (Finite 1000)),
           (''messages'',
              JArr ([JObj [(''role'', JStr ''system''), (''content'', JStr prompt)]]
                    @ turns
                    @ [JObj [(''role'', JStr ''user''), (''content'', message)]]))]"

text \<open>The third argument of \<^verbatim>\<open>axios.post\<close>: headers, and nothing else.\<close>

definition request_config :: "env \<Rightarrow> jsval" where
  "request_config env =
     JObj [(''headers'',
            JObj [(''Authorization'',
                     JStr (''Bearer '' @ (case CLAUDE_API_KEY env of None \<Rightarrow> ''undefined'' | Some k \<Rightarrow> k))),
                  (''Content-Type'', JStr ''application/json''),
                  (''x-api-key'',
                     (case CLAUDE_API_KEY env of None \<Rightarrow> JUndefined | Some k \<Rightarrow> JStr k))])]"

text \<open>\<^verbatim>\<open>claudeResponse.data.content[0].text\<close>.\<close>

definition response_text :: "jsval \<Rightarrow> err + jsval" where
  "response_text data =
     (case get_prop data ''content'' of
        Inl e \<Rightarrow> Inl e
      | Inr content \<Rightarrow>
          (case get_first content of
             Inl e \<Rightarrow> Inl e
           | Inr block \<Rightarrow> get_prop block ''text''))"

text \<open>From the catalogue query to the model's text, each step in the source's order.\<close>

definition ask_model :: "env \<Rightarrow> jsval \<Rightarrow> jsval \<Rightarrow> jsval io" where
  "ask_model env message conversationHistory =
     bind_io (request_query env 0 (JStr catalog_query)) (\<lambda>recordset.
     bind_io (lift (availableTables recordset)) (\<lambda>names.
     bind_io (lift (join_tables (number_text env) names)) (\<lambda>tables.
     bind_io (lift (spread conversationHistory)) (\<lambda>turns.
     bind_io (axios_post env (request_data (systemPrompt tables) turns message) (request_config env))
       (\<lambda>data. lift (response_text data))))))"

subsection \<open>Reading the model's text and running its query\<close>

text \<open>
  The inner \<^verbatim>\<open>try\<close>/\<^verbatim>\<open>catch\<close>. It ends with the two variables \<^verbatim>\<open>claudeMessage\<close> and
  \<^verbatim>\<open>queryResult\<close>; the \<^verbatim>\<open>catch\<close> takes whatever is thrown inside the \<^verbatim>\<open>try\<close>, logs one line
  and leaves the variables as they are at that moment. \<^verbatim>\<open>JSON.parse\<close> converts its
  argument to a string first. The model's query is query number 1 of the request.
\<close>

definition parse_log :: event where
  "parse_log = Log ''Could not parse Claude response as JSON, using raw response'' None"

definition results_text :: "(rat \<Rightarrow> string) \<Rightarrow> jsval \<Rightarrow> jsval \<Rightarrow> string option" where
  "results_text nt response queryResult =
     (case to_str nt response of
        None \<Rightarrow> None
      | Some r \<Rightarrow>
          (case to_str nt (JSON_stringify nt queryResult) of
             None \<Rightarrow> None
           | Some rows \<Rightarrow> Some (r @ ''\<newline>\<newline>Query Results:\<newline>'' @ rows)))"

definition interpret_text :: "env \<Rightarrow> jsval \<Rightarrow> (jsval \<times> jsval) io" where
  "interpret_text env claudeMessage =
     (case to_str (number_text env) claudeMessage of
        None \<Rightarrow> ([parse_log], Return (claudeMessage, JNull))
      | Some text \<Rightarrow>
     (case JSON_parse env text of
        None \<Rightarrow> ([parse_log], Return (claudeMessage, JNull))
      | Some parsedResponse \<Rightarrow>
     (case get_prop parsedResponse ''needsQuery'' of
        Inl e \<Rightarrow> ([parse_log], Return (claudeMessage, JNull))
      | Inr needsQuery \<Rightarrow>
     (case get_prop parsedResponse ''query'' of
        Inl e \<Rightarrow> ([parse_log], Return (claudeMessage, JNull))
      | Inr query \<Rightarrow>
     (case get_prop parsedResponse ''response'' of
        Inl e \<Rightarrow> ([parse_log], Return (claudeMessage, JNull))
      | Inr response \<Rightarrow>
          if truthy needsQuery \<and> truthy query
          then (case store env 1 query of
                  Inl m \<Rightarrow> ([Query query, parse_log], Return (claudeMessage, JNull))
                | Inr queryResult \<Rightarrow>
                    (case results_text (number_text env) response queryResult of
                       None \<Rightarrow> ([Query query, parse_log], Return (claudeMessage, queryResult))
                     | Some answer \<Rightarrow> ([Query query], Return (JStr answer, queryResult))))
          else ([], Return (response, JNull)))))))"

text \<open>The body of the 200 response. \<^verbatim>\<open>res.json\<close> leaves out a field whose value is
  \<^verbatim>\<open>undefined\<close>; here the field is kept, with that value.\<close>

definition chat_response :: "env \<Rightarrow> jsval \<Rightarrow> jsval \<Rightarrow> jsval" where
  "chat_response env claudeMessage queryResult =
     JObj [(''response'', claudeMessage),
           (''queryResult'', queryResult),
           (''timestamp'', JStr (now env))]"

text \<open>The body of the outer \<^verbatim>\<open>try\<close> once \<^verbatim>\<open>pool\<close> is there: the same text in both files.\<close>

definition chat_core :: "env \<Rightarrow> jsval \<Rightarrow> jsval \<Rightarrow> unit io" where
  "chat_core env message conversationHistory =
     bind_io (ask_model env message conversationHistory) (\<lambda>claudeMessage.
     bind_io (interpret_text env claudeMessage) (\<lambda>vars.
       respond 200 (chat_response env (fst vars) (snd vars))))"

subsection \<open>\<^verbatim>\<open>POST /api/chat\<close> in \<^verbatim>\<open>server.js\<close>: one connection for each request\<close>

definition api_chat :: "env \<Rightarrow> jsval \<Rightarrow> unit io" where
  "api_chat env body =
     try_finally
       (try_catch
          (bind_io (lift (destructure body)) (\<lambda>vars.
           bind_io (getDatabaseConnection env) (\<lambda>pool.
             chat_core env (fst vars) (snd vars))))
          (\<lambda>e. bind_io (emit (Log ''Chat endpoint error:'' (Some e))) (\<lambda>_.
                 respond 500 (JObj [(''error'', JStr ''Internal server error''),
                                    (''details'', JStr (message_of env e))]))))
       (close_pool env)"

subsection \<open>\<^verbatim>\<open>POST /api/chat\<close> in the standalone file: one pool for the process\<close>

text \<open>\<^verbatim>\<open>connectToDatabase\<close> runs once when the process starts; a failure is logged and the
  global \<^verbatim>\<open>pool\<close> stays \<^verbatim>\<open>undefined\<close> (\<open>False\<close>).\<close>

definition connectToDatabase :: "env \<Rightarrow> bool io" where
  "connectToDatabase env =
     (case connect env of
        Inr pool \<Rightarrow> ([Acquire, Log ''Connected to SQL Server'' None], Return True)
      | Inl m \<Rightarrow> ([Log ''Database connection failed:'' (Some (Rejected m))], Return False))"

text \<open>\<^verbatim>\<open>pool.request()\<close> on the global: a TypeError when the pool is \<^verbatim>\<open>undefined\<close>.\<close>

definition global_pool :: "bool \<Rightarrow> unit io" where
  "global_pool pool = (if pool then return () else lift (Inl TypeError))"

definition api_chat_standalone :: "env \<Rightarrow> bool \<Rightarrow> jsval \<Rightarrow> unit io" where
  "api_chat_standalone env pool body =
     try_catch
       (bind_io (lift (destructure body)) (\<lambda>vars.
        bind_io (global_pool pool) (\<lambda>_.
          chat_core env (fst vars) (snd vars))))
       (\<lambda>e. bind_io (emit (Log ''Chat endpoint error:'' (Some e))) (\<lambda>_.
              respond 500 (JObj [(''error'', JStr ''Internal server error'')])))"

section \<open>The query handler\<close>

text \<open>\<^verbatim>\<open>query.trim().toUpperCase().startsWith('SELECT')\<close>: only a string has \<^verbatim>\<open>trim\<close>.\<close>

definition starts_with_select :: "string \<Rightarrow> bool" where
  "starts_with_select q \<longleftrightarrow> startsWith (toUpperCase (trim q)) (map of_char ''SELECT'')"

definition select_check :: "jsval \<Rightarrow> err + bool" where
  "select_check query = (case query of JStr q \<Rightarrow> Inr (starts_with_select q) | _ \<Rightarrow> Inl TypeError)"

definition only_select :: jsval where
  "only_select = JObj [(''error'', JStr ''Only SELECT queries are allowed'')]"

definition api_query :: "env \<Rightarrow> jsval \<Rightarrow> unit io" where
  "api_query env body =
     try_finally
       (try_catch
          (bind_io (lift (get_prop body ''query'')) (\<lambda>query.
           bind_io (lift (select_check query)) (\<lambda>selects.
             if \<not> selects then respond 400 only_select
             else bind_io (getDatabaseConnection env) (\<lambda>pool.
                  bind_io (request_query env 0 query) (\<lambda>recordset.
                    respond 200 recordset)))))
          (\<lambda>e. bind_io (emit (Log ''Query endpoint error:'' (Some e))) (\<lambda>_.
                 respond 500 (JObj [(''error'', JStr (message_of env e))]))))
       (close_pool env)"

definition api_query_standalone :: "env \<Rightarrow> bool \<Rightarrow> jsval \<Rightarrow> unit io" where
  "api_query_standalone env pool body =
     try_catch
       (bind_io (lift (get_prop body ''query'')) (\<lambda>query.
        bind_io (lift (select_check query)) (\<lambda>selects.
          if \<not> selects then respond 400 only_select
          else bind_io (global_pool pool) (\<lambda>_.
               bind_io (request_query env 0 query) (\<lambda>recordset.
                 respond 200 recordset)))))
       (\<lambda>e. respond 500 (JObj [(''error'', JStr (message_of env e))]))"

section \<open>What a request is observed to do\<close>

text \<open>The intent asks for a query: the test \<^verbatim>\<open>parsedResponse.needsQuery && parsedResponse.query\<close>.\<close>

definition requests_query :: "jsval \<Rightarrow> bool" where
  "requests_query parsedResponse =
     (case get_prop parsedResponse ''needsQuery'' of
        Inl e \<Rightarrow> False
      | Inr needsQuery \<Rightarrow>
          (case get_prop parsedResponse ''query'' of
             Inl e \<Rightarrow> False
           | Inr query \<Rightarrow> truthy needsQuery \<and> truthy query))"

text \<open>A field of the intent, \<^verbatim>\<open>undefined\<close> when the intent has no such field.\<close>

definition field :: "jsval \<Rightarrow> string \<Rightarrow> jsval" where
  "field v name = (case get_prop v name of Inl e \<Rightarrow> JUndefined | Inr x \<Rightarrow> x)"

text \<open>The request gets as far as the model's text in \<^verbatim>\<open>server.js\<close>: the body destructures,
  the connection opens, and the steps up to \<^verbatim>\<open>claudeResponse.data.content[0].text\<close> return.\<close>

definition model_text :: "env \<Rightarrow> jsval \<Rightarrow> jsval option" where
  "model_text env body =
     (case destructure body of
        Inl e \<Rightarrow> None
      | Inr vars \<Rightarrow>
          (case connect env of
             Inl m \<Rightarrow> None
           | Inr pool \<Rightarrow>
               (case snd (ask_model env (fst vars) (snd vars)) of
                  Return t \<Rightarrow> Some t
                | Throw e \<Rightarrow> None
                | Pending \<Rightarrow> None)))"

text \<open>The events on the connection, in order.\<close>

fun connection_events :: "event list \<Rightarrow> event list" where
  "connection_events [] = []"
| "connection_events (Acquire # es) = Acquire # connection_events es"
| "connection_events (Query q # es) = Query q # connection_events es"
| "connection_events (Close # es) = Close # connection_events es"
| "connection_events (e # es) = connection_events es"

section \<open>Sample worlds\<close>

text \<open>
  A store with the two tables Orders and Users that answers every other query with
  \<open>result\<close>; a model service that answers every request with the text \<open>text\<close>; and
  \<^verbatim>\<open>JSON.parse\<close> restricted to that text, whose value is \<open>parsed\<close>.
\<close>

definition sample_tables :: jsval where
  "sample_tables =
     JArr [JObj [(''TABLE_NAME'', JStr ''Orders'')], JObj [(''TABLE_NAME'', JStr ''Users'')]]"

definition sample_store :: "string + jsval \<Rightarrow> nat \<Rightarrow> jsval \<Rightarrow> string + jsval" where
  "sample_store result n q = (if q = JStr catalog_query then Inr sample_tables else result)"

definition sample_upstream :: "string \<Rightarrow> jsval \<Rightarrow> reply" where
  "sample_upstream text data =
     Replied (JObj [(''content'', JArr [JObj [(''type'', JStr ''text''), (''text'', JStr text)]])])"

definition silent_upstream :: "jsval \<Rightarrow> reply" where
  "silent_upstream data = Silent"

definition sample_parse :: "string \<Rightarrow> jsval option \<Rightarrow> string \<Rightarrow> jsval option" where
  "sample_parse text parsed s = (if s = text then parsed else None)"

fun nat_text :: "nat \<Rightarrow> string" where
  "nat_text n = (if n < 10 then [hex_digit n] else nat_text (n div 10) @ [hex_digit (n mod 10)])"

text \<open>The decimal text of a natural number; the samples render no other number.\<close>

definition sample_number :: "rat \<Rightarrow> string" where
  "sample_number r = (if 0 \<le> r \<and> r = of_int \<lfloor>r\<rfloor> then nat_text (nat \<lfloor>r\<rfloor>) else ''?'')"

definition sample_engine :: "err \<Rightarrow> string" where
  "sample_engine e = ''engine error''"

definition sample_env :: "string \<Rightarrow> jsval option \<Rightarrow> string + jsval \<Rightarrow> env" where
  "sample_env text parsed result =
     \<lparr>connect = Inr (), store = sample_store result, close = Inr (),
      upstream = sample_upstream text, JSON_parse = sample_parse text parsed,
      number_text = sample_number, engine_message = sample_engine,
      now = ''2024-05-01T12:00:00.000Z'', CLAUDE_API_KEY = Some ''secret''\<rparr>"

definition silent_env :: env where
  "silent_env = (sample_env [] None (Inr (JArr [])))\<lparr>upstream := silent_upstream\<rparr>"

definition sample_body :: jsval where
  "sample_body = JObj [(''message'', JStr ''How many orders are there?'')]"

text \<open>Scenario E of the specification: the model's text, its JSON value, the store's row.\<close>

definition count_text :: string where
  "count_text =
     ''{'' @ quote ''needsQuery'' @ '':true,'' @ quote ''query'' @ '':''
       @ quote ''SELECT COUNT(*) FROM Orders'' @ '','' @ quote ''response'' @ '':'' @ quote ''here''
       @ ''}''"

definition count_intent :: jsval where
  "count_intent =
     JObj [(''needsQuery'', JBool True), (''query'', JStr ''SELECT COUNT(*) FROM Orders''),
           (''response'', JStr ''here'')]"

definition count_rows :: jsval where
  "count_rows = JArr [JObj [([], JNum (Finite 5))]]"

text \<open>Scenario D: a text that is no JSON.\<close>

definition unknown_text :: string where
  "unknown_text = ''I don'' @ [CHR 0x27] @ ''t know''"

text \<open>An intent that asks for a query and gives an empty one.\<close>

definition empty_query_text :: string where
  "empty_query_text =
     ''{'' @ quote ''needsQuery'' @ '':true,'' @ quote ''query'' @ '':'' @ quote [] @ '',''
       @ quote ''response'' @ '':'' @ quote ''Which table do you mean?'' @ ''}''"

definition empty_query_intent :: jsval where
  "empty_query_intent =
     JObj [(''needsQuery'', JBool True), (''query'', JStr []),
           (''response'', JStr ''Which table do you mean?'')]"

text \<open>An intent whose query is no SELECT.\<close>

definition drop_text :: string where
  "drop_text =
     ''{'' @ quote ''needsQuery'' @ '':true,'' @ quote ''query'' @ '':'' @ quote ''DROP TABLE Users''
       @ '','' @ quote ''response'' @ '':'' @ quote ''Dropping the table'' @ ''}''"

definition drop_intent :: jsval where
  "drop_intent =
     JObj [(''needsQuery'', JBool True), (''query'', JStr ''DROP TABLE Users''),
           (''response'', JStr ''Dropping the table'')]"

text \<open>An intent whose query names a table the store does not have.\<close>

definition missing_text :: string where
  "missing_text =
     ''{'' @ quote ''needsQuery'' @ '':true,'' @ quote ''query'' @ '':'' @ quote ''SELECT * FROM Missing''
       @ '','' @ quote ''response'' @ '':'' @ quote ''Here are the rows'' @ ''}''"

definition missing_intent :: jsval where
  "missing_intent =
     JObj [(''needsQuery'', JBool True), (''query'', JStr ''SELECT * FROM Missing''),
           (''response'', JStr ''Here are the rows'')]"

text \<open>Scenario E with an explanation beside the response.\<close>

definition explained_text :: string where
  "explained_text =
     ''{'' @ quote ''needsQuery'' @ '':true,'' @ quote ''query'' @ '':''
       @ quote ''SELECT COUNT(*) FROM Orders'' @ '','' @ quote ''explanation'' @ '':''
       @ quote ''Counting the orders'' @ '','' @ quote ''response'' @ '':'' @ quote ''here'' @ ''}''"

definition explained_intent :: jsval where
  "explained_intent =
     JObj [(''needsQuery'', JBool True), (''query'', JStr ''SELECT COUNT(*) FROM Orders''),
           (''explanation'', JStr ''Counting the orders''), (''response'', JStr ''here'')]"

text \<open>An intent with no field at all.\<close>

definition empty_object_text :: string where
  "empty_object_text = ''{}''"

text \<open>The answer of scenario E: the response, the heading, the one row rendered.\<close>

definition count_answer :: string where
  "count_answer =
     ''here\<newline>\<newline>Query Results:\<newline>[\<newline>  {\<newline>    '' @ quote [] @ '': 5\<newline>  }\<newline>]''"

section \<open>Properties of the stages\<close>

lemma queries_append [simp]: "queries (a @ b) = queries a @ queries b"
  by (induction a rule: queries.induct) auto

lemma responses_append [simp]: "responses (a @ b) = responses a @ responses b"
  by (induction a rule: responses.induct) auto

lemma posts_append [simp]: "posts (a @ b) = posts a @ posts b"
  by (induction a rule: posts.induct) auto

lemma connection_events_append [simp]:
  "connection_events (a @ b) = connection_events a @ connection_events b"
  by (induction a rule: connection_events.induct) auto

lemmas io_defs = bind_io_def try_catch_def try_finally_def lift_def return_def emit_def respond_def

lemma get_prop_defined: "get_prop v a = Inr x \<Longrightarrow> \<exists>y. get_prop v b = Inr y"
  by (cases v) auto

subsection \<open>The inner try block\<close>

lemma interpret_returns: "\<exists>es cm qr. interpret_text env t = (es, Return (cm, qr))"
  by (auto simp: interpret_text_def split: option.splits sum.splits)

lemma interpret_responses: "responses (fst (interpret_text env t)) = []"
  by (auto simp: interpret_text_def parse_log_def split: option.splits sum.splits)

lemma interpret_connection:
  "connection_events (fst (interpret_text env t)) = map Query (queries (fst (interpret_text env t)))"
  by (auto simp: interpret_text_def parse_log_def split: option.splits sum.splits)

lemma interpret_posts: "posts (fst (interpret_text env t)) = []"
  by (auto simp: interpret_text_def parse_log_def split: option.splits sum.splits)

lemma interpret_no_pool_event:
  "Acquire \<notin> set (fst (interpret_text env t)) \<and> Close \<notin> set (fst (interpret_text env t))"
  by (auto simp: interpret_text_def parse_log_def split: option.splits sum.splits)

subsection \<open>The steps before it\<close>

lemma ask_model_queries: "queries (fst (ask_model env m h)) = [JStr catalog_query]"
  by (auto simp: ask_model_def io_defs request_query_def axios_post_def
           split: sum.splits reply.splits option.splits)

lemma ask_model_responses: "responses (fst (ask_model env m h)) = []"
  by (auto simp: ask_model_def io_defs request_query_def axios_post_def
           split: sum.splits reply.splits option.splits)

lemma ask_model_connection:
  "connection_events (fst (ask_model env m h)) = [Query (JStr catalog_query)]"
  by (auto simp: ask_model_def io_defs request_query_def axios_post_def
           split: sum.splits reply.splits option.splits)

lemma request_config_no_timeout: "axios_timeout (request_config env) = None"
  by (simp add: axios_timeout_def request_config_def)

lemma ask_model_pending_posts:
  "snd (ask_model env m h) = Pending
     \<longleftrightarrow> (\<exists>d. posts (fst (ask_model env m h)) = [d] \<and> upstream env d = Silent)"
  by (auto simp: ask_model_def io_defs request_query_def axios_post_def request_config_no_timeout
           split: sum.splits reply.splits option.splits)

lemma ask_model_failed:
  "posts (fst (ask_model env m h)) = [d] \<Longrightarrow> upstream env d = Failed msg
     \<Longrightarrow> snd (ask_model env m h) = Throw (Rejected msg)"
  by (auto simp: ask_model_def io_defs request_query_def axios_post_def request_config_no_timeout
           split: sum.splits reply.splits option.splits)

lemma ask_model_no_close: "Close \<notin> set (fst (ask_model env m h))"
  by (auto simp: ask_model_def io_defs request_query_def axios_post_def
           split: sum.splits reply.splits option.splits)

lemma ask_model_no_pool_event:
  "Acquire \<notin> set (fst (ask_model env m h)) \<and> Close \<notin> set (fst (ask_model env m h))"
  by (auto simp: ask_model_def io_defs request_query_def axios_post_def
           split: sum.splits reply.splits option.splits)

subsection \<open>The finally block\<close>

lemma close_pool_returns: "snd (close_pool env sofar) = Return ()"
  by (simp add: close_pool_def io_defs split: sum.splits)

lemma close_pool_responses: "responses (fst (close_pool env sofar)) = []"
  by (simp add: close_pool_def io_defs split: sum.splits)

lemma close_pool_queries: "queries (fst (close_pool env sofar)) = []"
  by (simp add: close_pool_def io_defs split: sum.splits)

lemma close_pool_connection:
  "connection_events (fst (close_pool env sofar)) = (if Acquire \<in> set sofar then [Close] else [])"
  by (simp add: close_pool_def io_defs split: sum.splits)

lemma close_pool_posts: "posts (fst (close_pool env sofar)) = []"
  by (simp add: close_pool_def io_defs split: sum.splits)

lemmas close_pool_simps =
  close_pool_returns close_pool_responses close_pool_queries close_pool_connection

subsection \<open>The shared body of the chat handlers\<close>

lemma chat_core_connection:
  "connection_events (fst (chat_core env m h))
     = Query (JStr catalog_query)
       # (case snd (ask_model env m h) of
            Return t \<Rightarrow> map Query (queries (fst (interpret_text env t)))
          | _ \<Rightarrow> [])"
proof -
  obtain ea oa where a: "ask_model env m h = (ea, oa)" by (cases "ask_model env m h")
  have c: "connection_events ea = [Query (JStr catalog_query)]"
    using ask_model_connection [of env m h] a by simp
  show ?thesis
  proof (cases oa)
    case (Return t)
    obtain es cm qr where i: "interpret_text env t = (es, Return (cm, qr))"
      using interpret_returns by blast
    with a c Return interpret_connection [of env t] show ?thesis
      by (simp add: chat_core_def io_defs)
  qed (use a c in \<open>simp_all add: chat_core_def io_defs\<close>)
qed

lemma chat_core_posts: "posts (fst (chat_core env m h)) = posts (fst (ask_model env m h))"
proof -
  obtain ea oa where a: "ask_model env m h = (ea, oa)" by (cases "ask_model env m h")
  show ?thesis
  proof (cases oa)
    case (Return t)
    obtain es cm qr where i: "interpret_text env t = (es, Return (cm, qr))"
      using interpret_returns by blast
    with a Return interpret_posts [of env t] show ?thesis
      by (simp add: chat_core_def io_defs)
  qed (use a in \<open>simp_all add: chat_core_def io_defs\<close>)
qed

lemma chat_core_outcome:
  "snd (chat_core env m h)
     = (case snd (ask_model env m h) of Return t \<Rightarrow> Return () | Throw e \<Rightarrow> Throw e | Pending \<Rightarrow> Pending)"
proof -
  obtain ea oa where a: "ask_model env m h = (ea, oa)" by (cases "ask_model env m h")
  show ?thesis
  proof (cases oa)
    case (Return t)
    obtain es cm qr where i: "interpret_text env t = (es, Return (cm, qr))"
      using interpret_returns by blast
    with a Return show ?thesis
      by (simp add: chat_core_def io_defs)
  qed (use a in \<open>simp_all add: chat_core_def io_defs\<close>)
qed

lemma chat_core_throw_responses:
  "snd (ask_model env m h) = Throw e \<Longrightarrow> responses (fst (chat_core env m h)) = []"
  using ask_model_responses [of env m h]
  by (cases "ask_model env m h") (simp add: chat_core_def io_defs)

lemma chat_core_pending:
  "snd (ask_model env m h) = Pending \<Longrightarrow> fst (chat_core env m h) = fst (ask_model env m h)"
  by (cases "ask_model env m h") (simp add: chat_core_def io_defs)

lemma chat_core_no_pool_event:
  "Acquire \<notin> set (fst (chat_core env m h)) \<and> Close \<notin> set (fst (chat_core env m h))"
proof -
  obtain ea oa where a: "ask_model env m h = (ea, oa)" by (cases "ask_model env m h")
  have c: "Acquire \<notin> set ea \<and> Close \<notin> set ea"
    using ask_model_no_pool_event [of env m h] a by simp
  show ?thesis
  proof (cases oa)
    case (Return t)
    obtain es cm qr where i: "interpret_text env t = (es, Return (cm, qr))"
      using interpret_returns by blast
    with a c Return interpret_no_pool_event [of env t] show ?thesis
      by (simp add: chat_core_def io_defs)
  qed (use a c in \<open>simp_all add: chat_core_def io_defs\<close>)
qed

subsection \<open>A chat request that gets the model's text\<close>

lemma api_chat_served:
  assumes "model_text env body = Some t" and "interpret_text env t = (es, Return (cm, qr))"
  shows "responses (fst (api_chat env body)) = [(200, chat_response env cm qr)]"
    and "queries (fst (api_chat env body)) = JStr catalog_query # queries es"
    and "snd (api_chat env body) = Return ()"
    and "set es \<subseteq> set (fst (api_chat env body))"
proof -
  from assms(1) obtain vars pool
    where d: "destructure body = Inr vars" and c: "connect env = Inr pool"
      and a: "snd (ask_model env (fst vars) (snd vars)) = Return t"
    by (auto simp: model_text_def split: sum.splits outcome.splits)
  have r: "responses es = []"
    using interpret_responses [of env t] assms(2) by simp
  show "responses (fst (api_chat env body)) = [(200, chat_response env cm qr)]"
    using d c a assms(2) r ask_model_responses [of env "fst vars" "snd vars"]
    by (simp add: api_chat_def chat_core_def io_defs getDatabaseConnection_def close_pool_simps)
  show "queries (fst (api_chat env body)) = JStr catalog_query # queries es"
    using d c a assms(2) ask_model_queries [of env "fst vars" "snd vars"]
    by (simp add: api_chat_def chat_core_def io_defs getDatabaseConnection_def close_pool_simps)
  show "snd (api_chat env body) = Return ()"
    using d c a assms(2)
    by (simp add: api_chat_def chat_core_def io_defs getDatabaseConnection_def close_pool_simps)
  show "set es \<subseteq> set (fst (api_chat env body))"
    using d c a assms(2)
    by (auto simp: api_chat_def chat_core_def io_defs getDatabaseConnection_def close_pool_simps)
qed

lemma api_chat_connection:
  assumes "model_text env body = Some t"
  shows "connection_events (fst (api_chat env body))
           = Acquire # Query (JStr catalog_query) # map Query (queries (fst (interpret_text env t))) @ [Close]"
proof -
  from assms obtain vars pool
    where d: "destructure body = Inr vars" and c: "connect env = Inr pool"
      and a: "snd (ask_model env (fst vars) (snd vars)) = Return t"
    by (auto simp: model_text_def split: sum.splits outcome.splits)
  obtain es cm qr where i: "interpret_text env t = (es, Return (cm, qr))"
    using interpret_returns by blast
  have k: "snd (chat_core env (fst vars) (snd vars)) = Return ()"
    using a i by (simp add: chat_core_def io_defs)
  show ?thesis
    using d c a k chat_core_connection [of env "fst vars" "snd vars"]
    by (simp add: api_chat_def io_defs getDatabaseConnection_def close_pool_simps)
qed

lemma api_chat_standalone_served:
  assumes "model_text env body = Some t" and "interpret_text env t = (es, Return (cm, qr))"
  shows "responses (fst (api_chat_standalone env True body)) = [(200, chat_response env cm qr)]"
    and "connection_events (fst (api_chat_standalone env True body))
           = Query (JStr catalog_query) # map Query (queries es)"
    and "snd (api_chat_standalone env True body) = Return ()"
    and "queries (fst (api_chat_standalone env True body)) = JStr catalog_query # queries es"
proof -
  from assms(1) obtain vars
    where d: "destructure body = Inr vars"
      and a: "snd (ask_model env (fst vars) (snd vars)) = Return t"
    by (auto simp: model_text_def split: sum.splits outcome.splits)
  have r: "responses es = []"
    using interpret_responses [of env t] assms(2) by simp
  have c: "connection_events es = map Query (queries es)"
    using interpret_connection [of env t] assms(2) by simp
  show "responses (fst (api_chat_standalone env True body)) = [(200, chat_response env cm qr)]"
    using d a assms(2) r ask_model_responses [of env "fst vars" "snd vars"]
    by (simp add: api_chat_standalone_def global_pool_def chat_core_def io_defs)
  show "connection_events (fst (api_chat_standalone env True body))
           = Query (JStr catalog_query) # map Query (queries es)"
    using d a assms(2) c ask_model_connection [of env "fst vars" "snd vars"]
    by (simp add: api_chat_standalone_def global_pool_def chat_core_def io_defs)
  show "snd (api_chat_standalone env True body) = Return ()"
    using d a assms(2)
    by (simp add: api_chat_standalone_def global_pool_def chat_core_def io_defs)
  show "queries (fst (api_chat_standalone env True body)) = JStr catalog_query # queries es"
    using d a assms(2) ask_model_queries [of env "fst vars" "snd vars"]
    by (simp add: api_chat_standalone_def global_pool_def chat_core_def io_defs)
qed

text \<open>No request of the standalone file opens or closes a pool.\<close>

lemma api_chat_standalone_no_pool_event:
  "Acquire \<notin> set (fst (api_chat_standalone env pool body))
   \<and> Close \<notin> set (fst (api_chat_standalone env pool body))"
proof (cases "destructure body")
  case (Inl e)
  then show ?thesis
    by (simp add: api_chat_standalone_def io_defs)
next
  case (Inr vars)
  obtain ec oc where k: "chat_core env (fst vars) (snd vars) = (ec, oc)"
    by (cases "chat_core env (fst vars) (snd vars)")
  have n: "Acquire \<notin> set ec \<and> Close \<notin> set ec"
    using chat_core_no_pool_event [of env "fst vars" "snd vars"] k by simp
  show ?thesis
    using Inr k n
    by (cases oc; cases pool) (simp_all add: api_chat_standalone_def global_pool_def io_defs)
qed

subsection \<open>The sample worlds\<close>

lemma sample_model_text:
  "model_text (sample_env text parsed result) sample_body = Some (JStr text)"
  by (simp add: model_text_def sample_env_def sample_body_def destructure_def ask_model_def io_defs
      request_query_def sample_store_def sample_tables_def availableTables_def join_tables_def
      spread_def axios_post_def sample_upstream_def response_text_def)

lemma sample_number_5: "sample_number 5 = ''5''"
  by (simp add: sample_number_def hex_digit_def)

lemma count_rows_text:
  "results_text sample_number (JStr ''here'') count_rows = Some count_answer"
  by (simp add: results_text_def JSON_stringify_def count_rows_def count_answer_def
      sample_number_5 quote_def)

lemmas sample_defs = sample_env_def sample_parse_def sample_store_def catalog_query_def

lemma count_interpret:
  "interpret_text (sample_env count_text (Some count_intent) (Inr count_rows)) (JStr count_text)
     = ([Query (JStr ''SELECT COUNT(*) FROM Orders'')], Return (JStr count_answer, count_rows))"
  by (simp add: interpret_text_def sample_defs count_intent_def count_rows_text)

lemma silent_ask_model:
  "ask_model silent_env (JStr ''How many orders are there?'') (JArr [])
     = ([Query (JStr catalog_query),
         Post (request_data (systemPrompt ''Orders, Users'') [] (JStr ''How many orders are there?''))],
        Pending)"
  by (simp add: ask_model_def io_defs silent_env_def sample_env_def request_query_def sample_store_def
      sample_tables_def availableTables_def join_tables_def spread_def axios_post_def
      silent_upstream_def request_config_no_timeout)

lemma select_missing: "starts_with_select ''SELECT * FROM Missing''"
  by (simp add: starts_with_select_def startsWith_def toUpperCase_def trim_def is_space_def
      upper_units_def)


section \<open>The claims\<close>

text \<open>
  Claim C1 (the chat pipeline never executes a model-proposed query that the read-only
  policy rejects). The chat handler sends the query of the intent to the store with no
  check at all: for the intent whose query is \<^verbatim>\<open>DROP TABLE Users\<close> the store receives the
  catalogue query and then that statement. The handler of \<^verbatim>\<open>/api/query\<close> in the same file
  refuses the same text with status 400.
\<close>

theorem chat_runs_unchecked_query:
  "queries (fst (api_chat (sample_env drop_text (Some drop_intent) (Inr JUndefined)) sample_body))
     = [JStr catalog_query, JStr ''DROP TABLE Users'']
   \<and> responses (fst (api_query (sample_env drop_text (Some drop_intent) (Inr JUndefined))
                         (JObj [(''query'', JStr ''DROP TABLE Users'')])))
     = [(400, only_select)]"
proof -
  let ?env = "sample_env drop_text (Some drop_intent) (Inr JUndefined)"
  have "\<exists>es cm qr. interpret_text ?env (JStr drop_text) = (es, Return (cm, qr))
          \<and> queries es = [JStr ''DROP TABLE Users'']"
    by (simp add: interpret_text_def sample_defs drop_intent_def results_text_def JSON_stringify_def)
  then obtain es cm qr
    where i: "interpret_text ?env (JStr drop_text) = (es, Return (cm, qr))"
      and q: "queries es = [JStr ''DROP TABLE Users'']"
    by blast
  have 1: "queries (fst (api_chat ?env sample_body)) = [JStr catalog_query, JStr ''DROP TABLE Users'']"
    using api_chat_served(2) [OF sample_model_text i] q by simp
  have 2: "responses (fst (api_query ?env (JObj [(''query'', JStr ''DROP TABLE Users'')])))
             = [(400, only_select)]"
    by (simp add: api_query_def io_defs select_check_def starts_with_select_def startsWith_def
        toUpperCase_def trim_def is_space_def upper_units_def close_pool_simps)
  from 1 2 show ?thesis by simp
qed

text \<open>
  Claim C2 (a query the store rejects fails the request with a 5xx response that carries
  the store's message; the raw model text is never returned as a success in its place).
  The query runs inside the \<^verbatim>\<open>try\<close> whose \<^verbatim>\<open>catch\<close> is written for the JSON parse: when the
  store rejects \<^verbatim>\<open>SELECT * FROM Missing\<close>, the handler answers 200, the response is the raw
  model text, the store's message is not in it, and the line logged is the one about a
  text that could not be parsed.
\<close>

theorem store_error_swallowed:
  "queries (fst (api_chat (sample_env missing_text (Some missing_intent) (Inl ''Invalid object name'')) sample_body))
     = [JStr catalog_query, JStr ''SELECT * FROM Missing'']
   \<and> responses (fst (api_chat (sample_env missing_text (Some missing_intent) (Inl ''Invalid object name'')) sample_body))
     = [(200, JObj [(''response'', JStr missing_text), (''queryResult'', JNull),
                    (''timestamp'', JStr ''2024-05-01T12:00:00.000Z'')])]
   \<and> parse_log \<in> set (fst (api_chat (sample_env missing_text (Some missing_intent) (Inl ''Invalid object name'')) sample_body))"
proof -
  let ?env = "sample_env missing_text (Some missing_intent) (Inl ''Invalid object name'')"
  have i: "interpret_text ?env (JStr missing_text)
        = ([Query (JStr ''SELECT * FROM Missing''), parse_log], Return (JStr missing_text, JNull))"
    by (simp add: interpret_text_def sample_defs missing_intent_def)
  have n: "now ?env = ''2024-05-01T12:00:00.000Z''"
    by (simp add: sample_env_def)
  have l: "queries [parse_log] = []"
    by (simp add: parse_log_def)
  show ?thesis
    using api_chat_served(1,2,4) [OF sample_model_text i] n l
    by (simp add: chat_response_def)
qed

text \<open>
  Claim C3 as stated (after a successful parse the structured intent is returned as it
  is; the raw text is the answer after a parse failure) fails for the text \<^verbatim>\<open>null\<close>: it
  parses, the value has no response, and yet the inner block ends as after a parse
  failure, with the line about a text that could not be parsed and the raw text as answer.
\<close>

theorem null_read_as_unparsed:
  "JSON_parse (sample_env ''null'' (Some JNull) (Inr count_rows)) ''null'' = Some JNull
   \<and> field JNull ''response'' = JUndefined
   \<and> interpret_text (sample_env ''null'' (Some JNull) (Inr count_rows)) (JStr ''null'')
       = ([parse_log], Return (JStr ''null'', JNull))"
  by (simp add: interpret_text_def sample_defs field_def)

text \<open>
  Claim C3, amended. Reading the model's text never raises, whatever the text: the inner
  block always ends with the two variables set. When the text is no JSON, or is the JSON
  text \<^verbatim>\<open>null\<close>, the raw text is the answer, no query runs and there is no result. When the
  text is any other JSON, its fields are used as they are (a field it does not have is
  \<^verbatim>\<open>undefined\<close>): the query that runs is the query field, unchanged, and without a query
  the answer is the response field.
\<close>

theorem interpret_never_raises:
  "(\<exists>claudeMessage queryResult.
      snd (interpret_text env (JStr rawText)) = Return (claudeMessage, queryResult))
   \<and> (JSON_parse env rawText = None \<or> JSON_parse env rawText = Some JNull \<longrightarrow>
        interpret_text env (JStr rawText) = ([parse_log], Return (JStr rawText, JNull)))
   \<and> (JSON_parse env rawText = Some v \<and> get_prop v ''needsQuery'' = Inr needsQuery
        \<and> get_prop v ''query'' = Inr query \<and> get_prop v ''response'' = Inr response \<longrightarrow>
        (if truthy needsQuery \<and> truthy query
         then queries (fst (interpret_text env (JStr rawText))) = [query]
         else interpret_text env (JStr rawText) = ([], Return (response, JNull))))"
proof (intro conjI impI)
  show "\<exists>claudeMessage queryResult.
          snd (interpret_text env (JStr rawText)) = Return (claudeMessage, queryResult)"
    using interpret_returns [of env "JStr rawText"] by auto
next
  assume "JSON_parse env rawText = None \<or> JSON_parse env rawText = Some JNull"
  then show "interpret_text env (JStr rawText) = ([parse_log], Return (JStr rawText, JNull))"
    by (auto simp: interpret_text_def)
next
  assume "JSON_parse env rawText = Some v \<and> get_prop v ''needsQuery'' = Inr needsQuery
        \<and> get_prop v ''query'' = Inr query \<and> get_prop v ''response'' = Inr response"
  then show "if truthy needsQuery \<and> truthy query
         then queries (fst (interpret_text env (JStr rawText))) = [query]
         else interpret_text env (JStr rawText) = ([], Return (response, JNull))"
    by (auto simp: interpret_text_def parse_log_def split: option.splits sum.splits)
qed

theorem interpret_never_raises_witness:
  "JSON_parse (sample_env count_text (Some count_intent) (Inr count_rows)) [] = None
   \<and> interpret_text (sample_env count_text (Some count_intent) (Inr count_rows)) (JStr [])
       = ([parse_log], Return (JStr [], JNull))
   \<and> JSON_parse (sample_env count_text (Some count_intent) (Inr count_rows)) count_text
       = Some count_intent
   \<and> queries (fst (interpret_text (sample_env count_text (Some count_intent) (Inr count_rows))
                      (JStr count_text)))
       = [JStr ''SELECT COUNT(*) FROM Orders'']"
proof -
  let ?env = "sample_env count_text (Some count_intent) (Inr count_rows)"
  have p: "JSON_parse ?env [] = None"
    by (simp add: sample_env_def sample_parse_def count_text_def)
  have q: "JSON_parse ?env count_text = Some count_intent"
    by (simp add: sample_env_def sample_parse_def)
  have f: "get_prop count_intent ''needsQuery'' = Inr (JBool True)"
    "get_prop count_intent ''query'' = Inr (JStr ''SELECT COUNT(*) FROM Orders'')"
    "get_prop count_intent ''response'' = Inr (JStr ''here'')"
    by (simp_all add: count_intent_def)
  from interpret_never_raises [of ?env "[]" count_intent "JBool True"
      "JStr ''SELECT COUNT(*) FROM Orders''" "JStr ''here''"] p
  have 1: "interpret_text ?env (JStr []) = ([parse_log], Return (JStr [], JNull))"
    by blast
  from interpret_never_raises [of ?env count_text count_intent "JBool True"
      "JStr ''SELECT COUNT(*) FROM Orders''" "JStr ''here''"] q f
  have 2: "queries (fst (interpret_text ?env (JStr count_text)))
             = [JStr ''SELECT COUNT(*) FROM Orders'']"
    by simp
  from p q 1 2 show ?thesis by simp
qed

text \<open>
  Claim C4 as stated (\<^verbatim>\<open>POST /query\<close> answers 200 when the query begins with SELECT and 400
  otherwise) fails when the store rejects a query that begins with SELECT: the answer is
  500 with the store's message.
\<close>

theorem query_select_rejected_by_store:
  "starts_with_select ''SELECT * FROM Missing''
   \<and> responses (fst (api_query (sample_env [] None (Inl ''Invalid object name''))
                         (JObj [(''query'', JStr ''SELECT * FROM Missing'')])))
       = [(500, JObj [(''error'', JStr ''Invalid object name'')])]"
  by (simp add: select_missing api_query_def io_defs select_check_def getDatabaseConnection_def
      request_query_def sample_defs close_pool_simps message_of_def)

text \<open>
  Claim C4, amended. For a body whose \<^verbatim>\<open>query\<close> is a string, the handler answers 400 with
  the error object exactly when the query, trimmed and in upper case, does not begin with
  the letters SELECT. When it does, the handler opens a connection and sends the query
  text unchanged: 200 with the rows when both succeed, 500 with the message when the
  connection or the store rejects. The standalone handler does the same on its open pool.
  The query ranges over the strings of code units below 256, with \<^verbatim>\<open>trim\<close> and
  \<^verbatim>\<open>toUpperCase\<close> as JavaScript defines them there; the witness begins with a no-break
  space, which \<^verbatim>\<open>trim\<close> removes.
\<close>

theorem query_endpoint_status:
  assumes "get_prop body ''query'' = Inr (JStr q)"
  shows "responses (fst (api_query env body))
           = [if \<not> starts_with_select q then (400, only_select)
              else (case connect env of
                      Inl m \<Rightarrow> (500, JObj [(''error'', JStr m)])
                    | Inr pool \<Rightarrow>
                        (case store env 0 (JStr q) of
                           Inl m \<Rightarrow> (500, JObj [(''error'', JStr m)])
                         | Inr recordset \<Rightarrow> (200, recordset)))]
       \<and> queries (fst (api_query env body))
           = (if starts_with_select q \<and> connect env = Inr () then [JStr q] else [])
       \<and> responses (fst (api_query_standalone env True body))
           = [if \<not> starts_with_select q then (400, only_select)
              else (case store env 0 (JStr q) of
                      Inl m \<Rightarrow> (500, JObj [(''error'', JStr m)])
                    | Inr recordset \<Rightarrow> (200, recordset))]"
  using assms
  by (auto simp: api_query_def api_query_standalone_def global_pool_def io_defs select_check_def
      getDatabaseConnection_def request_query_def close_pool_simps message_of_def split: sum.splits)

theorem query_endpoint_status_witness:
  "get_prop (JObj [(''query'', JStr (CHR 0xA0 # ''  select 1 ''))]) ''query''
     = Inr (JStr (CHR 0xA0 # ''  select 1 ''))
   \<and> starts_with_select (CHR 0xA0 # ''  select 1 '')
   \<and> responses (fst (api_query (sample_env [] None (Inr count_rows))
                         (JObj [(''query'', JStr (CHR 0xA0 # ''  select 1 ''))])))
       = [(200, count_rows)]
   \<and> queries (fst (api_query (sample_env [] None (Inr count_rows))
                       (JObj [(''query'', JStr (CHR 0xA0 # ''  select 1 ''))])))
       = [JStr (CHR 0xA0 # ''  select 1 '')]"
proof -
  let ?q = "CHR 0xA0 # ''  select 1 ''"
  have g: "get_prop (JObj [(''query'', JStr ?q)]) ''query'' = Inr (JStr ?q)"
    by simp
  have s: "starts_with_select ?q"
    by (simp add: starts_with_select_def startsWith_def toUpperCase_def trim_def is_space_def
        upper_units_def)
  from query_endpoint_status [OF g, of "sample_env [] None (Inr count_rows)"] g s
  show ?thesis by (simp add: sample_defs)
qed

text \<open>
  Claim C5. When no query is run for the intent (the text is no JSON or is \<^verbatim>\<open>null\<close>, so
  that the raw text is the response; or the parsed intent does not ask for a query), the chat
  response has \<^verbatim>\<open>queryResult\<close> null, its \<^verbatim>\<open>response\<close> is the intent's response unchanged,
  and it carries the current timestamp. The standalone handler answers alike.
\<close>

theorem compose_without_result:
  assumes "model_text env body = Some (JStr s)"
    and "(JSON_parse env s = None \<or> JSON_parse env s = Some JNull) \<and> response = JStr s
         \<or> JSON_parse env s = Some v \<and> get_prop v ''response'' = Inr response
             \<and> \<not> requests_query v"
  shows "responses (fst (api_chat env body))
           = [(200, JObj [(''response'', response), (''queryResult'', JNull),
                          (''timestamp'', JStr (now env))])]
       \<and> responses (fst (api_chat_standalone env True body)) = responses (fst (api_chat env body))"
proof -
  from assms(2) have "\<exists>es. interpret_text env (JStr s) = (es, Return (response, JNull))"
  proof
    assume "(JSON_parse env s = None \<or> JSON_parse env s = Some JNull) \<and> response = JStr s"
    then show ?thesis by (auto simp: interpret_text_def)
  next
    assume a: "JSON_parse env s = Some v \<and> get_prop v ''response'' = Inr response
                 \<and> \<not> requests_query v"
    then obtain nq q where "get_prop v ''needsQuery'' = Inr nq" and "get_prop v ''query'' = Inr q"
      using get_prop_defined [of v "''response''" response] by blast
    with a show ?thesis by (auto simp: interpret_text_def requests_query_def)
  qed
  then obtain es where "interpret_text env (JStr s) = (es, Return (response, JNull))" ..
  from api_chat_served(1) [OF assms(1) this] api_chat_standalone_served(1) [OF assms(1) this]
  show ?thesis
    by (simp add: chat_response_def)
qed

theorem compose_without_result_witness:
  "model_text (sample_env unknown_text None (Inr count_rows)) sample_body = Some (JStr unknown_text)
   \<and> JSON_parse (sample_env unknown_text None (Inr count_rows)) unknown_text = None
   \<and> responses (fst (api_chat (sample_env unknown_text None (Inr count_rows)) sample_body))
       = [(200, JObj [(''response'', JStr unknown_text), (''queryResult'', JNull),
                      (''timestamp'', JStr ''2024-05-01T12:00:00.000Z'')])]"
proof -
  let ?env = "sample_env unknown_text None (Inr count_rows)"
  have p: "JSON_parse ?env unknown_text = None"
    by (simp add: sample_env_def sample_parse_def)
  have n: "now ?env = ''2024-05-01T12:00:00.000Z''"
    by (simp add: sample_env_def)
  from compose_without_result [OF sample_model_text, of unknown_text None "Inr count_rows"
      "JStr unknown_text" JNull] p n sample_model_text [of unknown_text None "Inr count_rows"]
  show ?thesis by simp
qed

text \<open>
  Claim C6 as stated (the response is the intent's response, or its explanation if
  present, with the rendered rows appended) fails for an intent that has an explanation:
  the handler never reads that field, and the answer begins with the response field.
\<close>

theorem explanation_not_used:
  "get_prop explained_intent ''explanation'' = Inr (JStr ''Counting the orders'')
   \<and> responses (fst (api_chat (sample_env explained_text (Some explained_intent) (Inr count_rows))
                        sample_body))
       = [(200, JObj [(''response'', JStr count_answer), (''queryResult'', count_rows),
                      (''timestamp'', JStr ''2024-05-01T12:00:00.000Z'')])]
   \<and> take 4 count_answer = ''here''
   \<and> \<not> startsWith count_answer ''Counting the orders''"
proof -
  let ?env = "sample_env explained_text (Some explained_intent) (Inr count_rows)"
  have i: "interpret_text ?env (JStr explained_text)
        = ([Query (JStr ''SELECT COUNT(*) FROM Orders'')], Return (JStr count_answer, count_rows))"
    by (simp add: interpret_text_def sample_defs explained_intent_def count_rows_text)
  show ?thesis
    using api_chat_served(1) [OF sample_model_text i]
    by (simp add: chat_response_def sample_env_def explained_intent_def startsWith_def
        count_answer_def)
qed

text \<open>
  Claim C6, amended. When the intent asks for a query, the store returns a result and the
  response field is a string, the chat response sets \<^verbatim>\<open>queryResult\<close> to that result, and its
  \<^verbatim>\<open>response\<close> is the response field followed by a blank line, the heading
  \<^verbatim>\<open>Query Results:\<close> and the result as JSON text indented by two spaces. The explanation
  field is never used. The store receives the catalogue query and then the intent's query.
  The standalone handler answers alike. Scenario E is the witness: one row, whose
  rendering is in the response.
\<close>

theorem compose_with_result:
  assumes "model_text env body = Some (JStr s)"
    and "JSON_parse env s = Some v"
    and "requests_query v"
    and "store env 1 (field v ''query'') = Inr rows"
    and "field v ''response'' = JStr r"
  shows "responses (fst (api_chat env body))
           = [(200, JObj [(''response'',
                             JStr (r @ ''\<newline>\<newline>Query Results:\<newline>''
                                     @ (case ser (number_text env) [] rows of
                                          None \<Rightarrow> ''undefined''
                                        | Some rendered \<Rightarrow> rendered))),
                          (''queryResult'', rows),
                          (''timestamp'', JStr (now env))])]
       \<and> queries (fst (api_chat env body)) = [JStr catalog_query, field v ''query'']
       \<and> responses (fst (api_chat_standalone env True body)) = responses (fst (api_chat env body))"
proof -
  from assms(3) obtain nq q where nq: "get_prop v ''needsQuery'' = Inr nq"
    and q: "get_prop v ''query'' = Inr q" and t: "truthy nq" "truthy q"
    by (auto simp: requests_query_def split: sum.splits)
  from nq obtain r' where r': "get_prop v ''response'' = Inr r'"
    using get_prop_defined by blast
  with assms(5) have r: "get_prop v ''response'' = Inr (JStr r)"
    by (simp add: field_def)
  let ?answer = "r @ ''\<newline>\<newline>Query Results:\<newline>''
        @ (case ser (number_text env) [] rows of None \<Rightarrow> ''undefined'' | Some rendered \<Rightarrow> rendered)"
  have "results_text (number_text env) (JStr r) rows = Some ?answer"
    by (simp add: results_text_def JSON_stringify_def split: option.splits)
  with assms(2,4) nq q t r
  have "interpret_text env (JStr s) = ([Query q], Return (JStr ?answer, rows))"
    by (simp add: interpret_text_def field_def)
  from api_chat_served(1,2) [OF assms(1) this] api_chat_standalone_served(1) [OF assms(1) this] q
  show ?thesis
    by (simp add: chat_response_def field_def)
qed

theorem compose_with_result_witness:
  "model_text (sample_env count_text (Some count_intent) (Inr count_rows)) sample_body
     = Some (JStr count_text)
   \<and> requests_query count_intent
   \<and> responses (fst (api_chat (sample_env count_text (Some count_intent) (Inr count_rows)) sample_body))
       = [(200, JObj [(''response'', JStr count_answer), (''queryResult'', count_rows),
                      (''timestamp'', JStr ''2024-05-01T12:00:00.000Z'')])]
   \<and> queries (fst (api_chat (sample_env count_text (Some count_intent) (Inr count_rows)) sample_body))
       = [JStr catalog_query, JStr ''SELECT COUNT(*) FROM Orders'']"
proof -
  let ?env = "sample_env count_text (Some count_intent) (Inr count_rows)"
  have p: "JSON_parse ?env count_text = Some count_intent"
    by (simp add: sample_env_def sample_parse_def)
  have rq: "requests_query count_intent"
    by (simp add: requests_query_def count_intent_def)
  have f: "field count_intent ''query'' = JStr ''SELECT COUNT(*) FROM Orders''"
    "field count_intent ''response'' = JStr ''here''"
    by (simp_all add: field_def count_intent_def)
  have st: "store ?env 1 (field count_intent ''query'') = Inr count_rows"
    by (simp add: f sample_defs)
  have n: "now ?env = ''2024-05-01T12:00:00.000Z''" "number_text ?env = sample_number"
    by (simp_all add: sample_env_def)
  have rt: "ser sample_number [] count_rows = Some (drop 21 count_answer)"
    by (simp add: count_rows_def count_answer_def sample_number_5 quote_def)
  from compose_with_result [OF sample_model_text p rq st f(2)] n f rq rt
    sample_model_text [of count_text "Some count_intent" "Inr count_rows"]
  show ?thesis by (simp add: count_answer_def)
qed

text \<open>
  Claim C7 as stated (every chat request acquires the connection at its start and
  releases it before it completes) fails for the chat handler of the standalone file:
  that file opens one pool when the process starts, and a request that completes has
  neither opened nor closed anything; its only events on the connection are its queries.
\<close>

theorem standalone_pool_never_released:
  "connectToDatabase (sample_env count_text (Some count_intent) (Inr count_rows))
     = ([Acquire, Log ''Connected to SQL Server'' None], Return True)
   \<and> snd (api_chat_standalone (sample_env count_text (Some count_intent) (Inr count_rows)) True sample_body)
     = Return ()
   \<and> connection_events
       (fst (api_chat_standalone (sample_env count_text (Some count_intent) (Inr count_rows)) True sample_body))
     = [Query (JStr catalog_query), Query (JStr ''SELECT COUNT(*) FROM Orders'')]"
  using api_chat_standalone_served(2,3) [OF sample_model_text count_interpret]
  by (simp add: connectToDatabase_def sample_env_def)

text \<open>
  Claim C7, amended. In \<^verbatim>\<open>server.js\<close> the chat handler never throws, and when it completes,
  either it has obtained no connection and nothing happened on one, or the events on the
  connection are: the acquisition, then queries only, then the call of \<^verbatim>\<open>pool.close()\<close>, as
  the last of them. This holds on the success path, after a handled error and after an
  unexpected one. In the standalone file no chat request, whatever its body, the state of
  the global pool and the world, opens or closes a pool.
\<close>

theorem connection_scoped:
  "(snd (api_chat env body) = Return () \<or> snd (api_chat env body) = Pending)
   \<and> (snd (api_chat env body) = Return () \<longrightarrow>
        (if Acquire \<in> set (fst (api_chat env body))
         then \<exists>qs. connection_events (fst (api_chat env body)) = Acquire # map Query qs @ [Close]
         else connection_events (fst (api_chat env body)) = []))
   \<and> Acquire \<notin> set (fst (api_chat_standalone env started body))
   \<and> Close \<notin> set (fst (api_chat_standalone env started body))"
proof -
  have server:
    "(snd (api_chat env body) = Return () \<or> snd (api_chat env body) = Pending)
     \<and> (snd (api_chat env body) = Return () \<longrightarrow>
          (if Acquire \<in> set (fst (api_chat env body))
           then \<exists>qs. connection_events (fst (api_chat env body)) = Acquire # map Query qs @ [Close]
           else connection_events (fst (api_chat env body)) = []))"
  proof (cases "destructure body")
    case (Inl e)
    then show ?thesis
      by (simp add: api_chat_def io_defs close_pool_simps close_pool_def)
  next
    case (Inr vars)
    show ?thesis
    proof (cases "connect env")
      case (Inl m)
      with Inr show ?thesis
        by (simp add: api_chat_def io_defs getDatabaseConnection_def close_pool_simps close_pool_def)
    next
      case c: (Inr opened)
      obtain ec oc where k: "chat_core env (fst vars) (snd vars) = (ec, oc)"
        by (cases "chat_core env (fst vars) (snd vars)")
      have ce: "\<exists>qs. connection_events ec = map Query qs"
        using chat_core_connection [of env "fst vars" "snd vars"] k
        by (cases "snd (ask_model env (fst vars) (snd vars))")
          (auto intro: exI [of _ "[_]"] exI [of _ "_ # _"])
      then obtain qs where qs: "connection_events ec = map Query qs" ..
      show ?thesis
        using Inr c k qs
        by (cases oc) (auto simp: api_chat_def io_defs getDatabaseConnection_def close_pool_simps)
    qed
  qed
  with api_chat_standalone_no_pool_event [of env started body] show ?thesis
    by simp
qed

theorem connection_scoped_witness:
  "snd (api_chat (sample_env count_text (Some count_intent) (Inr count_rows)) sample_body) = Return ()
   \<and> Acquire \<in> set (fst (api_chat (sample_env count_text (Some count_intent) (Inr count_rows)) sample_body))
   \<and> connection_events (fst (api_chat (sample_env count_text (Some count_intent) (Inr count_rows)) sample_body))
       = [Acquire, Query (JStr catalog_query), Query (JStr ''SELECT COUNT(*) FROM Orders''), Close]
   \<and> Acquire \<notin> set (fst (api_chat_standalone (sample_env count_text (Some count_intent) (Inr count_rows))
                             True sample_body))
   \<and> Close \<notin> set (fst (api_chat_standalone (sample_env count_text (Some count_intent) (Inr count_rows))
                           True sample_body))"
proof -
  let ?env = "sample_env count_text (Some count_intent) (Inr count_rows)"
  note scoped = connection_scoped [of ?env sample_body True]
  have r: "snd (api_chat ?env sample_body) = Return ()"
    using api_chat_served(3) [OF sample_model_text count_interpret] .
  have c: "connection_events (fst (api_chat ?env sample_body))
             = [Acquire, Query (JStr catalog_query), Query (JStr ''SELECT COUNT(*) FROM Orders''), Close]"
    using api_chat_connection [OF sample_model_text, of count_text "Some count_intent" "Inr count_rows"]
    by (simp add: count_interpret)
  have a: "Acquire \<in> set (fst (api_chat ?env sample_body))"
  proof (rule ccontr)
    assume "Acquire \<notin> set (fst (api_chat ?env sample_body))"
    with scoped r c show False by simp
  qed
  from r a c scoped show ?thesis by simp
qed

text \<open>
  Claim C8 as stated (an explicit timeout bounds the call to the model service) fails:
  the configuration passed to \<^verbatim>\<open>axios.post\<close> holds headers only, and with a service that
  never answers the request stays pending, with no response sent and the connection open.
\<close>

theorem silent_upstream_blocks:
  "axios_timeout (request_config silent_env) = None
   \<and> snd (api_chat silent_env sample_body) = Pending
   \<and> responses (fst (api_chat silent_env sample_body)) = []
   \<and> connection_events (fst (api_chat silent_env sample_body)) = [Acquire, Query (JStr catalog_query)]"
proof -
  have d: "destructure sample_body = Inr (JStr ''How many orders are there?'', JArr [])"
    by (simp add: destructure_def sample_body_def)
  have c: "connect silent_env = Inr ()"
    by (simp add: silent_env_def sample_env_def)
  show ?thesis
    using d c
    by (simp add: request_config_no_timeout api_chat_def chat_core_def io_defs
        getDatabaseConnection_def silent_ask_model)
qed

text \<open>
  Claim C8, amended. The call to the model service carries no timeout. The chat request
  stays pending for ever exactly when it has posted to a service that stays silent; it
  then sends no response and does not close its connection. When the service makes the
  call fail, for whatever reason, the answer is the one generic 500 response, with the
  failure's message as details: no failure of the call is told apart from another.
\<close>

theorem model_call_unbounded:
  "axios_timeout (request_config env) = None
   \<and> (snd (api_chat env body) = Pending
        \<longleftrightarrow> (\<exists>d. posts (fst (api_chat env body)) = [d] \<and> upstream env d = Silent))
   \<and> (snd (api_chat env body) = Pending \<longrightarrow>
        responses (fst (api_chat env body)) = [] \<and> Close \<notin> set (fst (api_chat env body)))
   \<and> (posts (fst (api_chat env body)) = [d] \<and> upstream env d = Failed msg \<longrightarrow>
        responses (fst (api_chat env body))
          = [(500, JObj [(''error'', JStr ''Internal server error''), (''details'', JStr msg)])])"
proof (cases "destructure body")
  case (Inl e)
  then show ?thesis
    by (simp add: request_config_no_timeout api_chat_def io_defs close_pool_def)
next
  case (Inr vars)
  show ?thesis
  proof (cases "connect env")
    case (Inl m)
    with Inr show ?thesis
      by (simp add: request_config_no_timeout api_chat_def io_defs getDatabaseConnection_def
          close_pool_def)
  next
    case c: (Inr pool)
    let ?a = "ask_model env (fst vars) (snd vars)"
    let ?k = "chat_core env (fst vars) (snd vars)"
    have p: "posts (fst ?k) = posts (fst ?a)" by (rule chat_core_posts)
    have o: "snd ?k = (case snd ?a of Return t \<Rightarrow> Return () | Throw e \<Rightarrow> Throw e | Pending \<Rightarrow> Pending)"
      by (rule chat_core_outcome)
    note pend = ask_model_pending_posts [of env "fst vars" "snd vars"]
    note fail = ask_model_failed [of env "fst vars" "snd vars"]
    show ?thesis
    proof (cases "snd ?a")
      case (Return t)
      with o have k: "snd ?k = Return ()" by simp
      from Return pend fail
      have np: "\<And>d. posts (fst ?a) = [d] \<Longrightarrow> upstream env d \<noteq> Silent \<and> (\<forall>msg. upstream env d \<noteq> Failed msg)"
        by auto
      from Inr c k p np show ?thesis
        by (auto simp: request_config_no_timeout api_chat_def io_defs getDatabaseConnection_def
            close_pool_simps close_pool_posts)
    next
      case (Throw e)
      with o have k: "snd ?k = Throw e" by simp
      from Throw pend fail
      have np: "\<And>d. posts (fst ?a) = [d] \<Longrightarrow> upstream env d \<noteq> Silent
                  \<and> (\<forall>msg. upstream env d = Failed msg \<longrightarrow> e = Rejected msg)"
        by auto
      have r: "responses (fst ?k) = []"
        using Throw by (rule chat_core_throw_responses)
      from Inr c k p np r show ?thesis
        by (auto simp: request_config_no_timeout api_chat_def io_defs getDatabaseConnection_def
            close_pool_simps close_pool_posts message_of_def)
    next
      case Pending
      with o have k: "snd ?k = Pending" by simp
      from Pending pend obtain d0 where d0: "posts (fst ?a) = [d0]" "upstream env d0 = Silent"
        by blast
      have f: "fst ?k = fst ?a"
        using Pending by (rule chat_core_pending)
      from Inr c k p d0 f ask_model_responses [of env "fst vars" "snd vars"]
        ask_model_no_close [of env "fst vars" "snd vars"]
      show ?thesis
        by (auto simp: request_config_no_timeout api_chat_def io_defs getDatabaseConnection_def)
    qed
  qed
qed

theorem model_call_unbounded_witness:
  "posts (fst (api_chat silent_env sample_body))
     = [request_data (systemPrompt ''Orders, Users'') [] (JStr ''How many orders are there?'')]
   \<and> upstream silent_env (request_data (systemPrompt ''Orders, Users'') [] (JStr ''How many orders are there?''))
       = Silent
   \<and> snd (api_chat silent_env sample_body) = Pending
   \<and> responses (fst (api_chat silent_env sample_body)) = []
   \<and> Close \<notin> set (fst (api_chat silent_env sample_body))"
proof -
  let ?d = "request_data (systemPrompt ''Orders, Users'') [] (JStr ''How many orders are there?'')"
  have d: "destructure sample_body = Inr (JStr ''How many orders are there?'', JArr [])"
    by (simp add: destructure_def sample_body_def)
  have c: "connect silent_env = Inr ()"
    by (simp add: silent_env_def sample_env_def)
  have p: "posts (fst (api_chat silent_env sample_body)) = [?d]"
    using d c
    by (simp add: api_chat_def chat_core_def io_defs getDatabaseConnection_def silent_ask_model)
  have u: "upstream silent_env ?d = Silent"
    by (simp add: silent_env_def silent_upstream_def)
  from model_call_unbounded [of silent_env sample_body] p u
  have "snd (api_chat silent_env sample_body) = Pending" by blast
  with model_call_unbounded [of silent_env sample_body] p u show ?thesis by blast
qed

text \<open>
  Claim C9. When the model's text is JSON whose \<^verbatim>\<open>needsQuery\<close> is true and whose \<^verbatim>\<open>query\<close> is
  absent, empty or otherwise falsy, the store receives the catalogue query and no other,
  and the chat response has \<^verbatim>\<open>queryResult\<close> null and the response field of the intent.
  The standalone handler does the same.
\<close>

theorem no_query_without_text:
  assumes "model_text env body = Some (JStr s)"
    and "JSON_parse env s = Some v"
    and "truthy (field v ''needsQuery'')"
    and "\<not> truthy (field v ''query'')"
  shows "queries (fst (api_chat env body)) = [JStr catalog_query]
       \<and> responses (fst (api_chat env body))
           = [(200, JObj [(''response'', field v ''response''), (''queryResult'', JNull),
                          (''timestamp'', JStr (now env))])]
       \<and> queries (fst (api_chat_standalone env True body)) = [JStr catalog_query]
       \<and> responses (fst (api_chat_standalone env True body)) = responses (fst (api_chat env body))"
proof -
  from assms(3) obtain nq where nq: "get_prop v ''needsQuery'' = Inr nq"
    by (cases "get_prop v ''needsQuery''") (auto simp: field_def)
  then obtain q r where q: "get_prop v ''query'' = Inr q" and r: "get_prop v ''response'' = Inr r"
    by (cases v) auto
  from assms(2,4) nq q r
  have "interpret_text env (JStr s) = ([], Return (field v ''response'', JNull))"
    by (simp add: interpret_text_def field_def)
  from api_chat_served(1,2) [OF assms(1) this] api_chat_standalone_served(1,4) [OF assms(1) this]
  show ?thesis
    by (simp add: chat_response_def)
qed

theorem no_query_without_text_witness:
  "model_text (sample_env empty_query_text (Some empty_query_intent) (Inr count_rows)) sample_body
     = Some (JStr empty_query_text)
   \<and> truthy (field empty_query_intent ''needsQuery'')
   \<and> \<not> truthy (field empty_query_intent ''query'')
   \<and> queries (fst (api_chat (sample_env empty_query_text (Some empty_query_intent) (Inr count_rows))
                      sample_body))
       = [JStr catalog_query]
   \<and> responses (fst (api_chat (sample_env empty_query_text (Some empty_query_intent) (Inr count_rows))
                        sample_body))
       = [(200, JObj [(''response'', JStr ''Which table do you mean?''), (''queryResult'', JNull),
                      (''timestamp'', JStr ''2024-05-01T12:00:00.000Z'')])]"
proof -
  let ?env = "sample_env empty_query_text (Some empty_query_intent) (Inr count_rows)"
  have p: "JSON_parse ?env empty_query_text = Some empty_query_intent"
    by (simp add: sample_env_def sample_parse_def)
  have n: "now ?env = ''2024-05-01T12:00:00.000Z''"
    by (simp add: sample_env_def)
  have f: "truthy (field empty_query_intent ''needsQuery'')"
    "\<not> truthy (field empty_query_intent ''query'')"
    "field empty_query_intent ''response'' = JStr ''Which table do you mean?''"
    by (simp_all add: field_def empty_query_intent_def)
  from no_query_without_text [OF sample_model_text p f(1) f(2)] n f
    sample_model_text [of empty_query_text "Some empty_query_intent" "Inr count_rows"]
  show ?thesis by simp
qed

text \<open>
  Claim C10 as stated (a parsed text without response field and without query gives an
  absent response, never the raw text) fails for the text \<^verbatim>\<open>null\<close>: it parses, the value has
  no field, reading \<^verbatim>\<open>needsQuery\<close> from it throws inside the try block, and the raw text is
  the response.
\<close>

theorem null_reply_keeps_raw_text:
  "JSON_parse (sample_env ''null'' (Some JNull) (Inr count_rows)) ''null'' = Some JNull
   \<and> \<not> requests_query JNull
   \<and> field JNull ''response'' = JUndefined
   \<and> responses (fst (api_chat (sample_env ''null'' (Some JNull) (Inr count_rows)) sample_body))
       = [(200, JObj [(''response'', JStr ''null''), (''queryResult'', JNull),
                      (''timestamp'', JStr ''2024-05-01T12:00:00.000Z'')])]"
proof -
  let ?env = "sample_env ''null'' (Some JNull) (Inr count_rows)"
  have i: "interpret_text ?env (JStr ''null'') = ([parse_log], Return (JStr ''null'', JNull))"
    by (simp add: interpret_text_def sample_defs)
  show ?thesis
    using api_chat_served(1) [OF sample_model_text i]
    by (simp add: chat_response_def sample_env_def sample_parse_def requests_query_def field_def)
qed

text \<open>
  Claim C10, amended. When the model's text parses to a value other than \<^verbatim>\<open>null\<close> that has
  no response field and does not ask for a query, the \<^verbatim>\<open>response\<close> of the chat response is
  \<^verbatim>\<open>undefined\<close> and not the raw text; when it parses to \<^verbatim>\<open>null\<close>, the response is the raw text.
  (\<^verbatim>\<open>JSON.parse\<close> never returns \<^verbatim>\<open>undefined\<close>; a parser that did would be treated like
  \<^verbatim>\<open>null\<close>.) Both chat handlers answer alike.
\<close>

theorem missing_response_field:
  assumes "model_text env body = Some (JStr s)"
    and "JSON_parse env s = Some v"
    and "\<not> requests_query v"
    and "field v ''response'' = JUndefined"
  shows "responses (fst (api_chat env body))
           = [(200, JObj [(''response'', if v = JNull \<or> v = JUndefined then JStr s else JUndefined),
                          (''queryResult'', JNull),
                          (''timestamp'', JStr (now env))])]
       \<and> responses (fst (api_chat_standalone env True body)) = responses (fst (api_chat env body))"
proof (cases "v = JNull \<or> v = JUndefined")
  case True
  with assms(2) have "interpret_text env (JStr s) = ([parse_log], Return (JStr s, JNull))"
    by (auto simp: interpret_text_def)
  from api_chat_served(1) [OF assms(1) this] api_chat_standalone_served(1) [OF assms(1) this] True
  show ?thesis
    by (simp add: chat_response_def)
next
  case False
  then obtain nq q r where g: "get_prop v ''needsQuery'' = Inr nq" "get_prop v ''query'' = Inr q"
      "get_prop v ''response'' = Inr r"
    by (cases v) auto
  with assms(4) have r: "r = JUndefined" by (simp add: field_def)
  from assms(2,3) g r have "interpret_text env (JStr s) = ([], Return (JUndefined, JNull))"
    by (auto simp: interpret_text_def requests_query_def)
  from api_chat_served(1) [OF assms(1) this] api_chat_standalone_served(1) [OF assms(1) this] False
  show ?thesis
    by (simp add: chat_response_def)
qed

theorem missing_response_field_witness:
  "model_text (sample_env empty_object_text (Some (JObj [])) (Inr count_rows)) sample_body
     = Some (JStr empty_object_text)
   \<and> JSON_parse (sample_env empty_object_text (Some (JObj [])) (Inr count_rows)) empty_object_text
       = Some (JObj [])
   \<and> \<not> requests_query (JObj [])
   \<and> field (JObj []) ''response'' = JUndefined
   \<and> responses (fst (api_chat (sample_env empty_object_text (Some (JObj [])) (Inr count_rows)) sample_body))
       = [(200, JObj [(''response'', JUndefined), (''queryResult'', JNull),
                      (''timestamp'', JStr ''2024-05-01T12:00:00.000Z'')])]"
proof -
  let ?env = "sample_env empty_object_text (Some (JObj [])) (Inr count_rows)"
  have p: "JSON_parse ?env empty_object_text = Some (JObj [])"
    by (simp add: sample_env_def sample_parse_def)
  have q: "\<not> requests_query (JObj [])"
    by (simp add: requests_query_def)
  have f: "field (JObj []) ''response'' = JUndefined"
    by (simp add: field_def)
  have n: "now ?env = ''2024-05-01T12:00:00.000Z''"
    by (simp add: sample_env_def)
  from missing_response_field [OF sample_model_text p q f] p q f n
    sample_model_text [of empty_object_text "Some (JObj [])" "Inr count_rows"]
  show ?thesis by simp
qed

end
